theory Spec2Isabelle
  imports Main "HOL-Library.AList" "HOL-Library.Char_ord" "HOL-Library.List_Lexorder" "HOL-Library.Product_Lexorder"
begin

section \<open>Python strings\<close>

text \<open>
  The sources are Python 2 modules (implicit relative imports, \<open>err.message\<close>): a
  \<open>str\<close> is a byte string, modelled as \<^typ>\<open>string\<close>.
\<close>

definition newline :: char where
  "newline = CHR 0x0A"

definition tab :: char where
  "tab = CHR 0x09"

text \<open>\<open>s.replace(c, '')\<close> for a one-character \<open>c\<close>.\<close>

definition remove_char :: "char \<Rightarrow> string \<Rightarrow> string" where
  "remove_char c s = filter (\<lambda>x. x \<noteq> c) s"

text \<open>\<open>s.split(c)\<close>: the pieces between the separators, at least one piece.\<close>

fun split_char :: "char \<Rightarrow> string \<Rightarrow> string list" where
  "split_char c [] = [[]]"
| "split_char c (x # xs) =
     (if x = c then [] # split_char c xs
      else (case split_char c xs of
              [] \<Rightarrow> [[x]]
            | p # ps \<Rightarrow> (x # p) # ps))"

text \<open>\<open>s[i:j]\<close> for indices \<open>0 \<le> i\<close>, \<open>0 \<le> j\<close>: clamped to the string, empty when \<open>j \<le> i\<close>.\<close>

definition py_slice :: "'a list \<Rightarrow> nat \<Rightarrow> nat \<Rightarrow> 'a list" where
  "py_slice s i j = take (j - i) (drop i s)"

text \<open>\<open>range(0, n, step)\<close> for a positive \<open>step\<close>.\<close>

definition py_range0 :: "nat \<Rightarrow> nat \<Rightarrow> nat list" where
  "py_range0 n step = map (\<lambda>k. k * step) [0 ..< (n + step - 1) div step]"

text \<open>\<open>sep.join(xs)\<close>.\<close>

fun join :: "string \<Rightarrow> string list \<Rightarrow> string" where
  "join sep [] = []"
| "join sep [x] = x"
| "join sep (x # y # ys) = x @ sep @ join sep (y # ys)"

text \<open>\<open>'{0:<n}'.format(s)\<close>: left-justified in a field of \<open>n\<close> characters, never cut.\<close>

definition ljust :: "nat \<Rightarrow> string \<Rightarrow> string" where
  "ljust n s = s @ replicate (n - length s) CHR '' ''"

definition digit_char :: "nat \<Rightarrow> char" where
  "digit_char d = ''0123456789'' ! d"

text \<open>\<open>'%d' % n\<close> and \<open>str(n)\<close> for a natural number.\<close>

fun str_nat :: "nat \<Rightarrow> string" where
  "str_nat n = (if n < 10 then [digit_char n] else str_nat (n div 10) @ [digit_char (n mod 10)])"

declare str_nat.simps [simp del]


section \<open>Exceptions of the interpreter and of the application\<close>

text \<open>
  A \<open>datetime\<close> is its fields year, month, day, hour, minute, second, microsecond; two
  values compare field by field in that order, which is the lexicographic order of
  the tuple.
\<close>

type_synonym datetime = "nat \<times> nat \<times> nat \<times> nat \<times> nat \<times> nat \<times> nat"

text \<open>
  The attribute \<open>TimeStamp\<close> holds what its setter was given: a \<open>datetime\<close>, or a string
  \<open>MM/DD/YYYY HH:MM:SS\<close> that \<open>StringIsDate\<close> accepted. The setter parses such a string,
  but its last assignment, outside the \<open>if\<close>, stores the string itself.
\<close>

datatype stamp = DT datetime | TS string

datatype kind =
    CommandLineErrors | ConfigFilesMissing
  | FailedToGeneratePNGS | FailedToGeneratePDF | MerlinCurvesMissing | NoPlotsLoaded
  | OutlookFailed | LogFileFailed

text \<open>
  An item of a container: a string, or a tuple \<open>(key, value)\<close> of two strings.
\<close>

datatype entry = EStr string | EPair string string

text \<open>
  One record type for every class derived from \<open>MerlinPlottingExcept\<close>: the fields of the
  base class, \<open>Contents\<close> of \<open>ExceptionContainerType\<close>, \<open>InvalidArgs\<close> of
  \<open>CommandLineErrors\<close>, \<open>MissingConfigs\<close> of \<open>ConfigFilesMissing\<close> and \<open>Path\<close> of the two
  \<open>PathType\<close> exceptions. A field a class does not have is left empty.
\<close>

record exc =
  Kind :: kind
  CallingFunction :: string
  SpecificMessage :: string
  TimeStamp :: stamp
  Contents :: "entry list"
  InvalidArgs :: "string list"
  MissingConfigs :: "(string \<times> string) list"
  Path :: string

datatype pyclass = ValueError | NameError | UnboundLocalError | TypeError | IOError
  | AttributeError | KeyError

text \<open>
  What a statement can raise: an exception of the interpreter (a subclass of
  \<open>Exception\<close>, with its \<open>message\<close> attribute), or one of the application's exceptions,
  which derive from \<open>BaseException\<close> only.
\<close>

datatype error = PyError pyclass string | Raised exc

fun is_Exception :: "error \<Rightarrow> bool" where
  "is_Exception (PyError c m) = True"
| "is_Exception (Raised e) = False"

text \<open>\<open>err.message\<close> of a caught interpreter exception.\<close>

fun err_message :: "error \<Rightarrow> string" where
  "err_message (PyError c m) = m"
| "err_message (Raised e) = []"

text \<open>
  \<open>a < b\<close> for two stored timestamps in Python 2: two \<open>datetime\<close> objects compare by
  time, two strings character by character, and a \<open>datetime\<close> refuses to be compared
  with a string.
\<close>

definition stamp_less :: "stamp \<Rightarrow> stamp \<Rightarrow> error + bool" where
  "stamp_less a b =
     (case (a, b) of
        (DT x, DT y) \<Rightarrow> Inr (x < y)
      | (TS x, TS y) \<Rightarrow> Inr (x < y)
      | _ \<Rightarrow> Inl (PyError TypeError ''can't compare datetime.datetime to str''))"

text \<open>
  The \<open>ExceptionAggregator\<close> is its dictionary \<open>__ExceptDict\<close> from class to exception
  object (its constructor sets no other attribute), kept as an association list; the key
  order of a Python 2 dictionary is arbitrary, and nothing below depends on it.
\<close>

type_synonym aggregator = "(kind \<times> exc) list"

text \<open>The Python values that reach the methods below as arguments.\<close>

datatype pyval =
    PyNone
  | PyBool bool
  | PyStr string
  | PyDateTime datetime
  | PyList "entry list"
  | PyClass kind
  | PyExc exc
  | PyAgg aggregator
  | PyDict aggregator

datatype severity = Fatal | NonFatal

fun severity_of :: "kind \<Rightarrow> severity" where
  "severity_of CommandLineErrors = Fatal"
| "severity_of ConfigFilesMissing = Fatal"
| "severity_of k = NonFatal"

text \<open>Whether the class derives from \<open>ExceptionContainerType\<close>.\<close>

fun is_container :: "kind \<Rightarrow> bool" where
  "is_container CommandLineErrors = True"
| "is_container ConfigFilesMissing = True"
| "is_container FailedToGeneratePNGS = True"
| "is_container MerlinCurvesMissing = True"
| "is_container NoPlotsLoaded = True"
| "is_container k = False"

fun class_name :: "kind \<Rightarrow> string" where
  "class_name CommandLineErrors = ''CommandLineErrors''"
| "class_name ConfigFilesMissing = ''ConfigFilesMissing''"
| "class_name FailedToGeneratePNGS = ''FailedToGeneratePNGS''"
| "class_name FailedToGeneratePDF = ''FailedToGeneratePDF''"
| "class_name MerlinCurvesMissing = ''MerlinCurvesMissing''"
| "class_name NoPlotsLoaded = ''NoPlotsLoaded''"
| "class_name OutlookFailed = ''OutlookFailed''"
| "class_name LogFileFailed = ''LogFileFailed''"

text \<open>The \<open>AttributeError\<close> for a method or property the object's class does not have.\<close>

definition no_attribute :: "kind \<Rightarrow> string \<Rightarrow> error" where
  "no_attribute k name =
     PyError AttributeError ([CHR 0x27] @ class_name k @ [CHR 0x27] @ '' object has no attribute ''
                             @ [CHR 0x27] @ name @ [CHR 0x27])"

section \<open>ExceptionContainerType\<close>

text \<open>
  \<open>Contents\<close> is a \<open>SortedList\<close> of the sortedcontainers package, modelled by its
  contract: a list kept in ascending order, \<open>add\<close> inserts after the items that are not
  greater, \<open>in\<close> is membership. Python 2 orders a string before any tuple, strings
  bytewise and tuples componentwise.
\<close>

fun entry_le :: "entry \<Rightarrow> entry \<Rightarrow> bool" where
  "entry_le (EStr a) (EStr b) = (a \<le> b)"
| "entry_le (EStr a) (EPair c d) = True"
| "entry_le (EPair a b) (EStr c) = False"
| "entry_le (EPair a b) (EPair c d) = ((a, b) \<le> (c, d))"

fun sl_add :: "('a \<Rightarrow> 'a \<Rightarrow> bool) \<Rightarrow> 'a \<Rightarrow> 'a list \<Rightarrow> 'a list" where
  "sl_add le x [] = [x]"
| "sl_add le x (y # ys) = (if le y x then y # sl_add le x ys else x # y # ys)"

text \<open>\<open>isinstance(value, tuple)\<close>.\<close>

fun is_tuple :: "entry \<Rightarrow> bool" where
  "is_tuple (EPair k x) = True"
| "is_tuple (EStr s) = False"

text \<open>
  Unpacking an item into two names, as \<open>for first, second in self.Contents\<close> does: a
  tuple gives its two components, a string of two characters gives these, any other
  string fails to unpack.
\<close>

definition unpack2 :: "entry \<Rightarrow> error + string \<times> string" where
  "unpack2 v =
     (case v of
        EPair k x \<Rightarrow> Inr (k, x)
      | EStr s \<Rightarrow>
          if length s = 2 then Inr ([s ! 0], [s ! 1])
          else if length s < 2 then
            Inl (PyError ValueError (''need more than '' @ str_nat (length s) @
                   (if length s = 1 then '' value'' else '' values'') @ '' to unpack''))
          else Inl (PyError ValueError ''too many values to unpack''))"

fun unpack_all :: "entry list \<Rightarrow> error + (string \<times> string) list" where
  "unpack_all [] = Inr []"
| "unpack_all (v # vs) =
     (case unpack2 v of
        Inl err \<Rightarrow> Inl err
      | Inr p \<Rightarrow> (case unpack_all vs of Inl err \<Rightarrow> Inl err | Inr ps \<Rightarrow> Inr (p # ps)))"

text \<open>\<open>[first for first, second in self.Contents]\<close>.\<close>

definition firsts :: "entry list \<Rightarrow> error + string list" where
  "firsts es = (case unpack_all es of Inl err \<Rightarrow> Inl err | Inr ps \<Rightarrow> Inr (map fst ps))"

text \<open>
  \<open>ExceptionContainerType.Add\<close>. A method that changes its object returns the exception
  it raised, if any, and the object as it is left.
\<close>

definition Container_Add :: "entry \<Rightarrow> entry list \<Rightarrow> error option \<times> entry list" where
  "Container_Add v contents =
     (case v of
        EStr s \<Rightarrow>
          if s \<noteq> [] \<and> EStr s \<notin> set contents then (None, sl_add entry_le v contents)
          else (None, contents)
      | EPair k x \<Rightarrow>
          (case firsts contents of
             Inl err \<Rightarrow> (Some err, contents)
           | Inr ks \<Rightarrow>
               if k \<notin> set ks then (None, sl_add entry_le v contents)
               else (None, contents)))"

text \<open>\<open>for item in container: self.Add(item)\<close>: stops at the first item that raises.\<close>

fun Add_each :: "entry list \<Rightarrow> entry list \<Rightarrow> error option \<times> entry list" where
  "Add_each [] contents = (None, contents)"
| "Add_each (v # vs) contents =
     (case Container_Add v contents of
        (Some err, contents') \<Rightarrow> (Some err, contents')
      | (None, contents') \<Rightarrow> Add_each vs contents')"

text \<open>
  \<open>TypesMatch(obj, derivedType)\<close>: a list, a \<open>SortedList\<close>, \<open>None\<close> or an instance of
  the derived class pass.
\<close>

fun TypesMatch :: "pyval \<Rightarrow> kind \<Rightarrow> bool" where
  "TypesMatch (PyList xs) k = True"
| "TypesMatch PyNone k = True"
| "TypesMatch (PyExc e) k = (Kind e = k)"
| "TypesMatch v k = False"

definition TypesMatch_error :: error where
  "TypesMatch_error =
     PyError ValueError ''Parameter must be list, SortedList, ExceptionContainerType or None.''"

text \<open>
  \<open>ExceptionContainerType.Merge\<close>. The \<open>TimeStamp\<close> setter is called with the timestamp
  one of the two objects stores: a \<open>datetime\<close>, or a string that \<open>StringIsDate\<close> accepted
  when it was stored and accepts again; the setter stores either as it is. Every class
  that has this method overrides it and calls \<open>TypesMatch\<close> first, so the argument is a
  container of the receiver's class, a list or \<open>None\<close>; the model refuses any other
  argument as \<open>TypesMatch\<close> does.
\<close>

definition Container_Merge :: "exc \<Rightarrow> pyval \<Rightarrow> error option \<times> exc" where
  "Container_Merge self container =
     (case container of
        PyExc c \<Rightarrow>
          (if is_container (Kind c) then
             (case stamp_less (TimeStamp c) (TimeStamp self) of
                Inl err \<Rightarrow> (Some err, self)
              | Inr earlier \<Rightarrow>
                  (let self1 = self\<lparr>TimeStamp :=
                           (if earlier then TimeStamp c else TimeStamp self)\<rparr>;
                       (r, contents) = Add_each (Contents c) (Contents self1)
                   in (r, self1\<lparr>Contents := contents\<rparr>)))
           else (Some TypesMatch_error, self))
      | PyNone \<Rightarrow> (None, self)
      | PyList items \<Rightarrow>
          (let (r, contents) = Add_each items (Contents self)
           in (r, self\<lparr>Contents := contents\<rparr>))
      | _ \<Rightarrow> (Some TypesMatch_error, self))"

text \<open>
  \<open>ConfigFilesMissing.__MergeMissingConfigs\<close> with the \<open>MissingConfigs\<close> of another
  \<open>ConfigFilesMissing\<close>. In Python 2 the comprehension in the test rebinds \<open>name\<close> and
  \<open>path\<close> to the last pair of the receiver's list, when there is one, before the pair
  is added.
\<close>

fun MergeMissingConfigs ::
  "(string \<times> string) list \<Rightarrow> (string \<times> string) list \<Rightarrow> (string \<times> string) list" where
  "MergeMissingConfigs [] mine = mine"
| "MergeMissingConfigs ((name, path) # rest) mine =
     MergeMissingConfigs rest
       (if name \<noteq> [] \<and> name \<notin> set (map fst mine)
        then sl_add (\<le>) (if mine = [] then (name, path) else last mine) mine
        else mine)"

text \<open>
  \<open>Merge\<close> as each container class overrides it: \<open>TypesMatch\<close> against the class itself,
  for \<open>ConfigFilesMissing\<close> the auxiliary list first, then the method of the base class.
  The classes that are no containers have no such method.
\<close>

definition Merge_exc :: "exc \<Rightarrow> pyval \<Rightarrow> error option \<times> exc" where
  "Merge_exc self v =
     (if \<not> is_container (Kind self) then (Some (no_attribute (Kind self) ''Merge''), self)
      else if \<not> TypesMatch v (Kind self) then (Some TypesMatch_error, self)
      else if Kind self = ConfigFilesMissing then
        (case v of
           PyExc c \<Rightarrow>
             Container_Merge
               (self\<lparr>MissingConfigs := MergeMissingConfigs (MissingConfigs c) (MissingConfigs self)\<rparr>) v
         | _ \<Rightarrow> Container_Merge self v)
      else Container_Merge self v)"

text \<open>\<open>HasErrors\<close> of the base class and of \<open>CommandLineErrors\<close>.\<close>

definition Container_HasErrors :: "exc \<Rightarrow> bool" where
  "Container_HasErrors self = (length (Contents self) > 0)"

definition CommandLineErrors_HasErrors :: "exc \<Rightarrow> bool" where
  "CommandLineErrors_HasErrors self =
     (Container_HasErrors self \<or> length (InvalidArgs self) > 0)"

text \<open>
  \<open>ErrorCount()\<close>: the number of items, for \<open>ConfigFilesMissing\<close> with the auxiliary list.
\<close>

definition ErrorCount_exc :: "exc \<Rightarrow> nat" where
  "ErrorCount_exc self =
     (if Kind self = ConfigFilesMissing then length (MissingConfigs self) + length (Contents self)
      else length (Contents self))"

text \<open>
  The property \<open>HasErrors\<close> as the object's class resolves it: \<open>CommandLineErrors\<close> and
  \<open>ConfigFilesMissing\<close> override it, the other containers inherit it, and the classes
  that are no containers have no such attribute.
\<close>

definition HasErrors_exc :: "exc \<Rightarrow> error + bool" where
  "HasErrors_exc self =
     (if Kind self = CommandLineErrors then Inr (CommandLineErrors_HasErrors self)
      else if Kind self = ConfigFilesMissing then Inr (ErrorCount_exc self > 0)
      else if is_container (Kind self) then Inr (Container_HasErrors self)
      else Inl (no_attribute (Kind self) ''HasErrors''))"

section \<open>Messages of the Fatal and NonFatal exceptions\<close>

text \<open>
  \<open>ExceptionContainerType.Message\<close>: \<open>', '.join(self.Contents)\<close>, which raises at the
  first item that is not a string.
\<close>

fun strings_of :: "nat \<Rightarrow> entry list \<Rightarrow> error + string list" where
  "strings_of i [] = Inr []"
| "strings_of i (EStr s # es) =
     (case strings_of (Suc i) es of Inl err \<Rightarrow> Inl err | Inr ss \<Rightarrow> Inr (s # ss))"
| "strings_of i (EPair k x # es) =
     Inl (PyError TypeError (''sequence item '' @ str_nat i @ '': expected string, tuple found''))"

definition Container_Message :: "exc \<Rightarrow> error + string" where
  "Container_Message self =
     (case strings_of 0 (Contents self) of
        Inl err \<Rightarrow> Inl err
      | Inr ss \<Rightarrow> Inr (join '', '' ss))"

text \<open>\<open>Message(granular)\<close> of each class.\<close>

definition CommandLineErrors_Message :: "exc \<Rightarrow> bool \<Rightarrow> error + string" where
  "CommandLineErrors_Message self granular =
     (if granular then
        (case (if length (Contents self) > 0 then
                 (case unpack_all (Contents self) of
                    Inl err \<Rightarrow> Inl err
                  | Inr ps \<Rightarrow>
                      Inr (''The following command line errors were improperly set: '' @ [newline]
                           @ ''{ '' @ join ('','' @ [newline]) (map (\<lambda>(arg, msg). arg @ '' : '' @ msg) ps)
                           @ '' }''))
               else Inr []) of
           Inl err \<Rightarrow> Inl err
         | Inr g \<Rightarrow>
             if length (InvalidArgs self) > 0 then
               Inr (g @ (if g \<noteq> [] then [newline] else [])
                    @ ''The following arguments are invalid: '' @ [newline]
                    @ ''{ '' @ join '','' (InvalidArgs self) @ '' }'')
             else Inr g)
      else Inr (str_nat (ErrorCount_exc self) @ '' command line errors were improperly passed.''))"

definition ConfigFilesMissing_Message :: "exc \<Rightarrow> bool \<Rightarrow> error + string" where
  "ConfigFilesMissing_Message self granular =
     (if granular then
        Inr (''The following {Configuration Files : Path } could not be loaded:'' @ [newline]
             @ join ('','' @ [newline])
                 (map (\<lambda>(name, path). name @ '':'' @ [newline] @ path)
                    (filter (\<lambda>(name, path). name \<noteq> [] \<and> path \<noteq> []) (MissingConfigs self))))
      else Inr (str_nat (ErrorCount_exc self) @ '' configuration files could not be loaded.''))"

definition FailedToGeneratePNGS_Message :: "exc \<Rightarrow> bool \<Rightarrow> error + string" where
  "FailedToGeneratePNGS_Message self granular =
     (if granular then
        (case Container_Message self of
           Inl err \<Rightarrow> Inl err
         | Inr m \<Rightarrow> Inr (''Failed to generate the following PNG charts: '' @ [newline]
                         @ ''{'' @ m @ ''}''))
      else Inr (''Failed to generate '' @ str_nat (ErrorCount_exc self) @ '' PNGs.''))"

definition FailedToGeneratePDF_Message :: "exc \<Rightarrow> bool \<Rightarrow> error + string" where
  "FailedToGeneratePDF_Message self granular =
     (if granular then
        Inr (''Failed to generate PDF at path: '' @ [newline] @ ''{'' @ Path self @ ''}'')
      else Inr ''Failed to generate PDF.'')"

definition MerlinCurvesMissing_Message :: "exc \<Rightarrow> bool \<Rightarrow> error + string" where
  "MerlinCurvesMissing_Message self granular =
     (if granular then
        (case Container_Message self of
           Inl err \<Rightarrow> Inl err
         | Inr m \<Rightarrow> Inr (''The following Merlin Curves are missing from production: { '' @ m @ '' }''))
      else Inr (str_nat (ErrorCount_exc self)
                @ '' Merlin Curves could not be found in production locations. ''))"

definition NoPlotsLoaded_Message :: "exc \<Rightarrow> bool \<Rightarrow> error + string" where
  "NoPlotsLoaded_Message self granular =
     (if granular then
        (case Container_Message self of
           Inl err \<Rightarrow> Inl err
         | Inr m \<Rightarrow> Inr (''The following plots had no Merlin Curves in the configuration: ''
                         @ [newline] @ ''{'' @ m @ ''}''))
      else Inr (str_nat (ErrorCount_exc self)
                @ '' plots had no Merlin Curves added to configuration.''))"

definition OutlookFailed_Message :: "exc \<Rightarrow> bool \<Rightarrow> error + string" where
  "OutlookFailed_Message self granular =
     (if granular then Inr (''Outlook error: '' @ SpecificMessage self)
      else Inr ''The Outlook email failed to generate.'')"

definition LogFileFailed_Message :: "exc \<Rightarrow> bool \<Rightarrow> error + string" where
  "LogFileFailed_Message self granular =
     (if granular then
        Inr (''LogFile could not be generated at '' @ [newline] @ Path self
             @ (if SpecificMessage self \<noteq> [] then [newline] @ ''reason: '' @ SpecificMessage self
                else []))
      else Inr ''The LogFile could not be generated. '')"

text \<open>The method the object's class selects.\<close>

definition Message :: "exc \<Rightarrow> bool \<Rightarrow> error + string" where
  "Message self granular =
     (case Kind self of
        CommandLineErrors \<Rightarrow> CommandLineErrors_Message self granular
      | ConfigFilesMissing \<Rightarrow> ConfigFilesMissing_Message self granular
      | FailedToGeneratePNGS \<Rightarrow> FailedToGeneratePNGS_Message self granular
      | FailedToGeneratePDF \<Rightarrow> FailedToGeneratePDF_Message self granular
      | MerlinCurvesMissing \<Rightarrow> MerlinCurvesMissing_Message self granular
      | NoPlotsLoaded \<Rightarrow> NoPlotsLoaded_Message self granular
      | OutlookFailed \<Rightarrow> OutlookFailed_Message self granular
      | LogFileFailed \<Rightarrow> LogFileFailed_Message self granular)"

text \<open>
  \<open>strftime\<close> with the formats of \<open>TimeStampToStr\<close>; in Python 2 it refuses a year
  before 1900, and a string has no such method.
\<close>

definition pad2 :: "nat \<Rightarrow> string" where
  "pad2 n = (if n < 10 then ''0'' @ str_nat n else str_nat n)"

definition TimeStampToStr :: "exc \<Rightarrow> bool \<Rightarrow> error + string" where
  "TimeStampToStr self time =
     (case TimeStamp self of
        TS s \<Rightarrow> Inl (PyError AttributeError ([CHR 0x27] @ ''str'' @ [CHR 0x27]
                       @ '' object has no attribute '' @ [CHR 0x27] @ ''strftime''
                       @ [CHR 0x27]))
      | DT (year, month, day, hour, minute, second, microsecond) \<Rightarrow>
          if year < 1900 then
            Inl (PyError ValueError (''year='' @ str_nat year
                   @ '' is before 1900; the datetime strftime() methods require year >= 1900''))
          else
            Inr (pad2 month @ ''/'' @ pad2 day @ ''/'' @ str_nat year
                 @ (if time then '' '' @ pad2 hour @ '':'' @ pad2 minute @ '':'' @ pad2 second
                    else [])))"

section \<open>The process and its files\<close>

text \<open>
  What the operations below read and change outside their objects: the files by path
  with their contents, the paths that cannot be opened for reading or for writing, and
  the strings passed to \<open>print\<close>, in order.
\<close>

record world =
  files :: "string \<rightharpoonup> string"
  read_denied :: "string set"
  write_denied :: "string set"
  stdout :: "string list"

definition print :: "string \<Rightarrow> world \<Rightarrow> world" where
  "print s w = w\<lparr>stdout := stdout w @ [s]\<rparr>"

section \<open>Fatal\<close>

definition MessageHeader :: string where
  "MessageHeader =
     replicate 68 CHR ''#'' @ [newline] @ ''# Fatal Error: '' @ [newline] @ replicate 68 CHR ''#''"

text \<open>
  \<open>Fatal.HandleAndExit\<close>, a method of the two Fatal classes only. The result tells how
  the call ends: \<open>None\<close> when it returns to its caller.
\<close>

definition HandleAndExit :: "exc \<Rightarrow> pyval \<Rightarrow> world \<Rightarrow> error option \<times> world" where
  "HandleAndExit self granular w =
     (if severity_of (Kind self) \<noteq> Fatal then
        (Some (no_attribute (Kind self) ''HandleAndExit''), w)
      else
        (let granular = (case granular of PyBool b \<Rightarrow> b | _ \<Rightarrow> False);
             w1 = print MessageHeader w
         in case Message self granular of
              Inl err \<Rightarrow> (Some err, w1)
            | Inr m \<Rightarrow> (None, print ''Exiting application.'' (print m w1))))"

section \<open>ExceptionAggregator\<close>

text \<open>
  \<open>isinstance(v, Fatals.Fatal)\<close>, \<open>isinstance(v, NonFatals.NonFatal)\<close> (the aggregator is
  itself a \<open>NonFatal\<close>) and \<open>IsContainerType(v)\<close>, which is
  \<open>isinstance(v, ExceptionContainerType)\<close>: a class object is an instance of none of
  them.
\<close>

fun isFatal :: "pyval \<Rightarrow> bool" where
  "isFatal (PyExc e) = (severity_of (Kind e) = Fatal)"
| "isFatal v = False"

fun isNonFatal :: "pyval \<Rightarrow> bool" where
  "isNonFatal (PyExc e) = (severity_of (Kind e) = NonFatal)"
| "isNonFatal (PyAgg a) = True"
| "isNonFatal v = False"

fun IsContainerType :: "pyval \<Rightarrow> bool" where
  "IsContainerType (PyExc e) = is_container (Kind e)"
| "IsContainerType v = False"

definition HasErrors :: "aggregator \<Rightarrow> bool" where
  "HasErrors self = (length (map fst self) > 0)"

definition ErrorCount :: "aggregator \<Rightarrow> nat" where
  "ErrorCount self = length (map fst self)"

text \<open>
  \<open>ExceptionAggregator.Add\<close> from its comment \<open>Add exception to internal container\<close> on,
  for an exception that is not an aggregator. A stored container is merged in place, so
  it is kept as the merge left it even when the merge raises.
\<close>

definition Add_exc :: "aggregator \<Rightarrow> exc \<Rightarrow> error option \<times> aggregator" where
  "Add_exc self exception =
     (if IsContainerType (PyExc exception) \<and> Kind exception \<notin> set (map fst self) then
        (None, AList.update (Kind exception) exception self)
      else if IsContainerType (PyExc exception) then
        (case map_of self (Kind exception) of
           None \<Rightarrow> (Some (PyError KeyError (class_name (Kind exception))), self)
         | Some stored \<Rightarrow>
             (case Merge_exc stored (PyExc exception) of
                (r, stored') \<Rightarrow> (r, AList.update (Kind exception) stored' self)))
      else (None, AList.update (Kind exception) exception self))"

text \<open>
  The loop of \<open>ExceptionAggregator.Merge\<close> over the keys of the other dictionary. The
  test is \<open>IsContainerType\<close> of the key, a class object; the other branch reads the
  name \<open>item\<close>, which no scope binds. The values of a dictionary are never aggregators
  (\<open>Add\<close> merges these instead of storing them), so the call of \<open>Add\<close> is \<open>Add_exc\<close>.
\<close>

fun Merge_keys :: "aggregator \<Rightarrow> aggregator \<Rightarrow> kind list \<Rightarrow> error option \<times> aggregator" where
  "Merge_keys self other [] = (None, self)"
| "Merge_keys self other (exceptionType # ks) =
     (if IsContainerType (PyClass exceptionType) then
        (case map_of other exceptionType of
           None \<Rightarrow> (Some (PyError KeyError (class_name exceptionType)), self)
         | Some e \<Rightarrow>
             (case Add_exc self e of
                (Some err, self') \<Rightarrow> (Some err, self')
              | (None, self') \<Rightarrow> Merge_keys self' other ks))
      else (Some (PyError NameError ''global name 'item' is not defined''), self))"

definition Merge :: "aggregator \<Rightarrow> pyval \<Rightarrow> error option \<times> aggregator" where
  "Merge self exceptionAgg =
     (case exceptionAgg of
        PyNone \<Rightarrow> (None, self)
      | PyAgg other \<Rightarrow> Merge_keys self other (map fst other)
      | _ \<Rightarrow> (Some (PyError ValueError ''exceptionAgg must be an ExceptionAggregator object.''), self))"

definition Add :: "aggregator \<Rightarrow> pyval \<Rightarrow> error option \<times> aggregator" where
  "Add self exception =
     (if \<not> isFatal exception \<and> \<not> isNonFatal exception then
        (Some (PyError ValueError ''Exception must be a derived Fatal or NonFatal exception object.''),
         self)
      else
        (case exception of
           PyAgg other \<Rightarrow> Merge self exception
         | PyExc e \<Rightarrow> Add_exc self e
         | _ \<Rightarrow> (None, self)))"

text \<open>The setter of \<open>Contents\<close>, and the constructor, which starts from the empty dictionary.\<close>

definition set_Contents :: "aggregator \<Rightarrow> pyval \<Rightarrow> error option \<times> aggregator" where
  "set_Contents self container =
     (case container of
        PyNone \<Rightarrow> (None, self)
      | PyAgg a \<Rightarrow> Merge [] (PyDict a)
      | _ \<Rightarrow> (Some (PyError ValueError ''Contents must be an ExceptionAggregator object.''), self))"

definition ExceptionAggregator :: "pyval \<Rightarrow> error + aggregator" where
  "ExceptionAggregator exceptAgg =
     (case set_Contents [] exceptAgg of
        (Some err, self) \<Rightarrow> Inl err
      | (None, self) \<Rightarrow> Inr self)"

text \<open>The constructor of \<open>NonFatals.LogFileFailed\<close>, given a \<open>datetime\<close>.\<close>

definition new_LogFileFailed :: "string \<Rightarrow> string \<Rightarrow> string \<Rightarrow> datetime \<Rightarrow> exc" where
  "new_LogFileFailed callingFunc logPath specific timestamp =
     \<lparr>Kind = LogFileFailed, CallingFunction = callingFunc, SpecificMessage = specific,
      TimeStamp = DT timestamp, Contents = [], InvalidArgs = [], MissingConfigs = [],
      Path = logPath\<rparr>"

section \<open>LogFile: message chunks\<close>

definition MessageBufferLength :: nat where
  "MessageBufferLength = 105"

text \<open>
  \<open>LogFile.__MessageChunks\<close>. The length is taken before the tabs are removed, and the
  same index range is used for every piece of the split.
\<close>

definition MessageChunks :: "string \<Rightarrow> string list" where
  "MessageChunks message =
     (let chunkSize = MessageBufferLength;
          length = length message;
          message = remove_char tab message;
          chunks = split_char newline message
      in concat (map (\<lambda>chunk.
            map (\<lambda>index. py_slice chunk index
                   (if index + chunkSize < length then index + chunkSize else length))
                (py_range0 length chunkSize)) chunks))"

section \<open>LogFile\<close>

text \<open>
  What the log file takes from its surroundings: the user name, the default timestamp
  of \<open>LogFileFailed\<close> (\<open>datetime.now()\<close> when the class was defined), the order in which
  Python 2 compares two exception objects (by class name, then by address), which key of
  the two-element dictionary \<open>Errors\<close> comes first, and the part of the constructor that
  lies in \<open>FileType\<close> and \<open>DirectoryType\<close>: it computes the path from the working
  directory and the sizes of the files there and creates the folder, so it returns the
  path or raises, and may change the files.
\<close>

record env =
  User :: string
  default_timestamp :: datetime
  obj_le :: "exc \<Rightarrow> exc \<Rightarrow> bool"
  fatal_first :: bool
  LogFile_path :: "world \<Rightarrow> (error + string) \<times> world"

text \<open>
  The log file object: its \<open>Path\<close> (here \<open>LogPath\<close>) and the two sorted lists of its
  dictionary \<open>Errors\<close>.
\<close>

record LogFile =
  LogPath :: string
  FatalErrors :: "exc list"
  NonFatalErrors :: "exc list"

definition LogFile_init :: "env \<Rightarrow> world \<Rightarrow> (error + LogFile) \<times> world" where
  "LogFile_init env w =
     (case LogFile_path env w of
        (Inl err, w') \<Rightarrow> (Inl err, w')
      | (Inr filePath, w') \<Rightarrow>
          (Inr \<lparr>LogPath = filePath, FatalErrors = [], NonFatalErrors = []\<rparr>, w'))"

text \<open>
  \<open>LogFile.Append\<close> for an exception object, which is a \<open>Fatal\<close> or a \<open>NonFatal\<close> and so
  passes the type check.
\<close>

definition Append :: "env \<Rightarrow> LogFile \<Rightarrow> exc \<Rightarrow> LogFile" where
  "Append env self exception =
     (if severity_of (Kind exception) = Fatal then
        self\<lparr>FatalErrors := sl_add (obj_le env) exception (FatalErrors self)\<rparr>
      else self\<lparr>NonFatalErrors := sl_add (obj_le env) exception (NonFatalErrors self)\<rparr>)"

definition LineFormatString :: "string \<Rightarrow> string \<Rightarrow> string \<Rightarrow> string \<Rightarrow> string" where
  "LineFormatString a b c d =
     ljust 20 a @ ljust (MessageBufferLength + 5) b @ ljust 60 c @ ljust 20 d"

definition Headers :: "string list" where
  "Headers =
     [LineFormatString ''Username:'' ''Message:'' ''Calling Function:'' ''TimeStamp:'',
      replicate 250 CHR ''-'']"

text \<open>The loop of \<open>LogFile.__FormattedMessages\<close> over the chunks that are not blank.\<close>

fun format_chunks :: "env \<Rightarrow> exc \<Rightarrow> string list \<Rightarrow> error + string list" where
  "format_chunks env exception [] = Inr []"
| "format_chunks env exception (m # ms) =
     (case TimeStampToStr exception True of
        Inl err \<Rightarrow> Inl err
      | Inr ts \<Rightarrow>
          (case format_chunks env exception ms of
             Inl err \<Rightarrow> Inl err
           | Inr rows \<Rightarrow>
               Inr (LineFormatString (User env) m (CallingFunction exception) ts # rows)))"

definition FormattedMessages :: "env \<Rightarrow> exc \<Rightarrow> bool \<Rightarrow> error + string list" where
  "FormattedMessages env exception granular =
     (case Message exception granular of
        Inl err \<Rightarrow> Inl err
      | Inr m \<Rightarrow> format_chunks env exception (filter (\<lambda>c. c \<noteq> []) (MessageChunks m)))"

text \<open>The rows of all stored exceptions, in the order \<open>Print\<close> visits them.\<close>

fun rows_of :: "env \<Rightarrow> exc list \<Rightarrow> error + string list" where
  "rows_of env [] = Inr []"
| "rows_of env (e # es) =
     (case FormattedMessages env e True of
        Inl err \<Rightarrow> Inl err
      | Inr rows \<Rightarrow>
          (case rows_of env es of Inl err \<Rightarrow> Inl err | Inr rest \<Rightarrow> Inr (rows @ rest)))"

definition new_rows :: "env \<Rightarrow> LogFile \<Rightarrow> error + string list" where
  "new_rows env self =
     rows_of env (if fatal_first env then FatalErrors self @ NonFatalErrors self
                  else NonFatalErrors self @ FatalErrors self)"

text \<open>\<open>f.readlines()\<close>: the lines of a text, each with its line break.\<close>

fun readlines :: "string \<Rightarrow> string list" where
  "readlines [] = []"
| "readlines (c # cs) =
     (if c = newline then [newline] # readlines cs
      else (case readlines cs of
              [] \<Rightarrow> [[c]]
            | l # ls \<Rightarrow> (c # l) # ls))"

text \<open>The lines \<open>Print\<close> keeps from the file it found.\<close>

definition prior_body :: "string \<Rightarrow> string list" where
  "prior_body old =
     (let prevLines = readlines old
      in map (remove_char newline) (if length prevLines > 2 then drop 2 prevLines else []))"

text \<open>\<open>file.writelines([line + '\n' for line in allLines])\<close>.\<close>

definition writelines :: "string list \<Rightarrow> string" where
  "writelines allLines = concat (map (\<lambda>line. line @ [newline]) allLines)"

text \<open>
  \<open>LogFile.Print\<close>. \<open>self.ErrorCount == 0\<close> compares the bound method with a number and
  is false. The file is read outside the \<open>try\<close>; opening it for writing empties it, so a
  failure while the rows are formatted leaves it empty.
\<close>

definition Print :: "env \<Rightarrow> LogFile \<Rightarrow> world \<Rightarrow> error option \<times> world" where
  "Print env self w =
     (let path = LogPath self;
          failed = (\<lambda>err. Raised (new_LogFileFailed ''LogFile::Print()'' path (err_message err)
                                     (default_timestamp env)))
      in case (case files w path of
                 None \<Rightarrow> Inr []
               | Some old \<Rightarrow>
                   if path \<in> read_denied w then Inl (PyError IOError [])
                   else Inr (prior_body old)) of
           Inl err \<Rightarrow> (Some err, w)
         | Inr prevLines \<Rightarrow>
             if path \<in> write_denied w then (Some (failed (PyError IOError [])), w)
             else
               (let w1 = w\<lparr>files := (files w)(path \<mapsto> [])\<rparr>
                in case new_rows env self of
                     Inl err \<Rightarrow> (Some (if is_Exception err then failed err else err), w1)
                   | Inr rows \<Rightarrow>
                       (None, w1\<lparr>files := (files w1)(path \<mapsto>
                                  writelines (Headers @ rows @ prevLines))\<rparr>)))"

text \<open>
  \<open>ExceptionAggregator.GenerateLogFile\<close>. Its loop appends the value of every key of
  the dictionary. The handler catches the subclasses of \<open>Exception\<close> only; when the
  constructor of the log file raises, the handler reads \<open>logFile\<close> before it was
  assigned.
\<close>

fun Append_keys :: "env \<Rightarrow> LogFile \<Rightarrow> aggregator \<Rightarrow> kind list \<Rightarrow> LogFile" where
  "Append_keys env logFile self [] = logFile"
| "Append_keys env logFile self (exceptionType # ks) =
     (case map_of self exceptionType of
        None \<Rightarrow> Append_keys env logFile self ks
      | Some e \<Rightarrow> Append_keys env (Append env logFile e) self ks)"

fun is_date :: "pyval \<Rightarrow> bool" where
  "is_date (PyDateTime d) = True"
| "is_date v = False"

definition GenerateLogFile ::
  "env \<Rightarrow> aggregator \<Rightarrow> pyval \<Rightarrow> pyval \<Rightarrow> pyval \<Rightarrow> world \<Rightarrow> error option \<times> aggregator \<times> world" where
  "GenerateLogFile env self valueDate runTime noLog w =
     (let noLog = (case noLog of PyBool b \<Rightarrow> b | _ \<Rightarrow> False)
      in if \<not> is_date valueDate then
           (Some (PyError ValueError ''valueDate must be a datetime or date object.''), self, w)
         else if \<not> HasErrors self \<or> noLog then (None, self, w)
         else
           (case LogFile_init env w of
              (Inl err, w1) \<Rightarrow>
                (Some (if is_Exception err
                       then PyError UnboundLocalError
                              ''local variable 'logFile' referenced before assignment''
                       else err), self, w1)
            | (Inr logFile0, w1) \<Rightarrow>
                (let logFile = Append_keys env logFile0 self (map fst self)
                 in case Print env logFile w1 of
                      (None, w2) \<Rightarrow> (None, self, w2)
                    | (Some err, w2) \<Rightarrow>
                        if is_Exception err then
                          (case Add self (PyExc (new_LogFileFailed [] (LogPath logFile)
                                                   (err_message err) (default_timestamp env))) of
                             (r, self') \<Rightarrow> (r, self', w2))
                        else (Some err, self, w2))))"

section \<open>Objects of a sample run\<close>

text \<open>
  The objects the closed theorems below evaluate the operations on: a missing-curves
  container as two plots report it, two more whose timestamps were given as strings, a
  command line with one wrong argument and one unknown token, a missing configuration
  file, a failed mail.
\<close>

definition curves_first :: exc where
  "curves_first =
     \<lparr>Kind = MerlinCurvesMissing, CallingFunction = ''MerlinPlotter::Execute()'',
      SpecificMessage = [], TimeStamp = DT (2019, 3, 14, 9, 30, 0, 0),
      Contents = [EStr ''EUR.SWAP.6M'', EStr ''USD.LIBOR.3M''],
      InvalidArgs = [], MissingConfigs = [], Path = []\<rparr>"

definition curves_second :: exc where
  "curves_second =
     \<lparr>Kind = MerlinCurvesMissing, CallingFunction = ''ForwardRatePlot::GetCurves()'',
      SpecificMessage = [], TimeStamp = DT (2019, 3, 14, 9, 29, 58, 0),
      Contents = [EStr ''GBP.SONIA'', EStr ''USD.LIBOR.3M''],
      InvalidArgs = [], MissingConfigs = [], Path = []\<rparr>"

definition year_end_curves :: exc where
  "year_end_curves =
     \<lparr>Kind = MerlinCurvesMissing, CallingFunction = ''MerlinPlotter::Execute()'',
      SpecificMessage = [], TimeStamp = TS ''12/31/2018 23:59:59'',
      Contents = [EStr ''USD.LIBOR.3M''],
      InvalidArgs = [], MissingConfigs = [], Path = []\<rparr>"

definition new_year_curves :: exc where
  "new_year_curves =
     \<lparr>Kind = MerlinCurvesMissing, CallingFunction = ''MerlinPlotter::Execute()'',
      SpecificMessage = [], TimeStamp = TS ''01/01/2019 00:00:01'',
      Contents = [EStr ''USD.LIBOR.3M''],
      InvalidArgs = [], MissingConfigs = [], Path = []\<rparr>"

definition cmdline_pairs :: "entry list" where
  "cmdline_pairs = [EPair ''-runtime'' ''must be AM or PM'', EPair ''-valuedate'' ''not a date'']"

definition cmdline_tokens_only :: exc where
  "cmdline_tokens_only =
     \<lparr>Kind = CommandLineErrors, CallingFunction = ''CommandLineArgs()'',
      SpecificMessage = [], TimeStamp = DT (2019, 3, 14, 9, 30, 0, 0),
      Contents = [], InvalidArgs = [''-colour''], MissingConfigs = [], Path = []\<rparr>"

definition config_missing :: exc where
  "config_missing =
     \<lparr>Kind = ConfigFilesMissing, CallingFunction = ''FilepathsFile::GetContents()'',
      SpecificMessage = [], TimeStamp = DT (2019, 3, 14, 9, 30, 0, 0),
      Contents = [], InvalidArgs = [],
      MissingConfigs = [(''Filepaths.csv'', ''C:/Configs/Filepaths.csv'')], Path = []\<rparr>"

definition mail_failed :: exc where
  "mail_failed =
     \<lparr>Kind = OutlookFailed, CallingFunction = ''MerlinPlotter::GenerateEmailWithPlots()'',
      SpecificMessage = ''Outlook is not installed'', TimeStamp = DT (2019, 3, 14, 9, 31, 7, 0),
      Contents = [], InvalidArgs = [], MissingConfigs = [], Path = []\<rparr>"

definition quiet_world :: world where
  "quiet_world = \<lparr>files = Map.empty, read_denied = {}, write_denied = {}, stdout = []\<rparr>"

text \<open>
  The surroundings of the sample run: the log file of an earlier run with one row, once
  readable and once not, and a log file object holding the failed mail.
\<close>

definition log_path :: string where
  "log_path = ''C:/Merlin/LogFile/MerlinPlotting LogFile.txt''"

definition sample_env :: env where
  "sample_env =
     \<lparr>User = ''brutan'', default_timestamp = (2019, 3, 14, 9, 0, 0, 0),
      obj_le = (\<lambda>a b. class_name (Kind a) \<le> class_name (Kind b)),
      fatal_first = True,
      LogFile_path = (\<lambda>w. (Inr log_path, w))\<rparr>"

text \<open>
  Lines of the log file character by character: the column titles, the row of the earlier
  run (a failed PDF), and the row of the failed mail.
\<close>

definition title_line :: string where
  "title_line =
     ''Username:'' @ replicate 11 CHR '' '' @ ''Message:'' @ replicate 102 CHR '' ''
     @ ''Calling Function:'' @ replicate 43 CHR '' '' @ ''TimeStamp:'' @ replicate 10 CHR '' ''"

definition earlier_row :: string where
  "earlier_row =
     ''brutan'' @ replicate 14 CHR '' '' @ ''Failed to generate PDF at path: ''
     @ replicate 78 CHR '' '' @ ''MerlinPlotter::GeneratePDF()'' @ replicate 32 CHR '' ''
     @ ''03/13/2019 17:05:44 ''"


definition earlier_log :: string where
  "earlier_log =
     concat (map (\<lambda>l. l @ [newline]) [title_line, replicate 250 CHR ''-'', earlier_row])"

definition logged_world :: world where
  "logged_world =
     \<lparr>files = [log_path \<mapsto> earlier_log], read_denied = {}, write_denied = {}, stdout = []\<rparr>"

definition locked_world :: world where
  "locked_world =
     \<lparr>files = [log_path \<mapsto> earlier_log], read_denied = {log_path}, write_denied = {},
      stdout = []\<rparr>"


definition run_date :: pyval where
  "run_date = PyDateTime (2019, 3, 14, 0, 0, 0, 0)"





section \<open>Properties of the message chunks\<close>

lemma split_char_absent: "c \<notin> set s \<Longrightarrow> split_char c s = [s]"
  by (induction s) auto

lemma remove_char_absent: "c \<notin> set s \<Longrightarrow> remove_char c s = s"
  by (induction s) (auto simp: remove_char_def)

lemma py_range0_262: "py_range0 262 105 = [0, 105, 210]"
  by (simp add: py_range0_def upt_rec)

lemma MessageChunks_262:
  assumes "length m = 262" "newline \<notin> set m" "tab \<notin> set m"
  shows "MessageChunks m = [take 105 m, take 105 (drop 105 m), drop 210 m]"
  using assms
  by (simp add: MessageChunks_def MessageBufferLength_def Let_def remove_char_absent
      split_char_absent py_range0_262 py_slice_def)

text \<open>
  Claim C5, as stated: every message of 262 characters without a line break is cut into
  rows of 105, 105 and 52 characters whose concatenation is the message. A message that
  contains a tab refutes it: 261 letters and one tab give rows of 105, 105 and 51
  characters.
\<close>

theorem MessageChunks_tab_counterexample:
  "length (replicate 261 CHR ''a'' @ [tab]) = 262
   \<and> newline \<notin> set (replicate 261 CHR ''a'' @ [tab])
   \<and> map length (MessageChunks (replicate 261 CHR ''a'' @ [tab])) = [105, 105, 51]
   \<and> concat (MessageChunks (replicate 261 CHR ''a'' @ [tab])) \<noteq> replicate 261 CHR ''a'' @ [tab]"
  by code_simp

text \<open>
  Claim C5, amended: a message of 262 characters with neither a line break nor a tab is
  cut into exactly three chunks of 105, 105 and 52 characters; none is blank, so each
  becomes a row, and their concatenation is the message.
\<close>

theorem MessageChunks_262_rows:
  assumes "length m = 262" and "newline \<notin> set m" and "tab \<notin> set m"
  shows "map length (MessageChunks m) = [105, 105, 52]
         \<and> filter (\<lambda>c. c \<noteq> []) (MessageChunks m) = MessageChunks m
         \<and> concat (MessageChunks m) = m"
proof -
  have chunks: "MessageChunks m = [take 105 m, take 105 (drop 105 m), drop 210 m]"
    using assms by (rule MessageChunks_262)
  have lens: "map length (MessageChunks m) = [105, 105, 52]"
    using assms(1) by (simp add: chunks)
  have nonblank: "filter (\<lambda>c. c \<noteq> []) (MessageChunks m) = MessageChunks m"
  proof -
    have "\<forall>c \<in> set (MessageChunks m). c \<noteq> []"
      using assms(1) by (auto simp: chunks)
    then show ?thesis by (simp add: filter_id_conv)
  qed
  have "take 105 m @ take 105 (drop 105 m) @ drop 210 m = m"
  proof -
    have "take 105 (drop 105 m) @ drop 210 m = drop 105 m"
      using append_take_drop_id [of 105 "drop 105 m"] by simp
    then show ?thesis by simp
  qed
  then have "concat (MessageChunks m) = m"
    by (simp add: chunks)
  with lens nonblank show ?thesis by simp
qed

theorem MessageChunks_262_rows_witness:
  "length (replicate 262 CHR ''a'') = 262
   \<and> newline \<notin> set (replicate 262 CHR ''a'')
   \<and> tab \<notin> set (replicate 262 CHR ''a'')
   \<and> map length (MessageChunks (replicate 262 CHR ''a'')) = [105, 105, 52]
   \<and> concat (MessageChunks (replicate 262 CHR ''a'')) = replicate 262 CHR ''a''"
proof -
  have h1: "length (replicate 262 CHR ''a'') = 262" by simp
  have h2: "newline \<notin> set (replicate 262 CHR ''a'')" by (simp add: newline_def)
  have h3: "tab \<notin> set (replicate 262 CHR ''a'')" by (simp add: tab_def)
  show ?thesis
    using h1 h2 h3 MessageChunks_262_rows [OF h1 h2 h3] by simp
qed

section \<open>Properties of the containers\<close>

lemma unpack_all_mem:
  "unpack_all c = Inr ps \<Longrightarrow> EPair k x \<in> set c \<Longrightarrow> (k, x) \<in> set ps"
  by (induction c arbitrary: ps)
     (auto simp: unpack2_def split: sum.splits if_splits entry.splits)

lemma firsts_mem:
  assumes "firsts c = Inr ks" and "EPair k x \<in> set c"
  shows "k \<in> set ks"
proof -
  from assms(1) obtain ps where ps: "unpack_all c = Inr ps" and ks: "ks = map fst ps"
    by (auto simp: firsts_def split: sum.splits)
  from ps assms(2) have "(k, x) \<in> set ps"
    by (rule unpack_all_mem)
  then have "fst (k, x) \<in> fst ` set ps"
    by (rule imageI)
  then show ?thesis
    by (simp add: ks)
qed

lemma unpack_all_pairs: "list_all is_tuple c \<Longrightarrow> \<exists>ps. unpack_all c = Inr ps"
proof (induction c)
  case Nil
  then show ?case by simp
next
  case (Cons v c)
  then show ?case by (cases v) (auto simp: unpack2_def)
qed

lemma set_sl_add: "set (sl_add le x xs) = insert x (set xs)"
  by (induction xs) auto

lemma count_sl_add:
  "count_list (sl_add le x xs) y = count_list xs y + (if x = y then 1 else 0)"
  by (induction xs) auto

text \<open>
  Claim C7: \<open>Add\<close> of a container is deduplicating. A string that is present leaves the
  items as they are; a string entry (not empty) that is new is there exactly once after
  it was added twice, the second call changing nothing; a tuple whose key is the key of
  a stored tuple is discarded, whatever its value, and the items stay as they are, the
  call returning normally when the container holds tuples only.
\<close>

theorem Container_Add_deduplicates:
  "(EStr s \<in> set c \<longrightarrow> Container_Add (EStr s) c = (None, c))
   \<and> (t \<noteq> [] \<and> EStr t \<notin> set c \<longrightarrow>
        Container_Add (EStr t) (snd (Container_Add (EStr t) c))
          = (None, snd (Container_Add (EStr t) c))
        \<and> count_list (snd (Container_Add (EStr t) c)) (EStr t) = 1)
   \<and> (EPair k x \<in> set d \<longrightarrow> snd (Container_Add (EPair k y) d) = d)
   \<and> (EPair k x \<in> set d \<and> list_all is_tuple d \<longrightarrow>
        Container_Add (EPair k y) d = (None, d))"
proof (intro conjI impI)
  assume "EStr s \<in> set c"
  then show "Container_Add (EStr s) c = (None, c)"
    by (simp add: Container_Add_def)
next
  assume "t \<noteq> [] \<and> EStr t \<notin> set c"
  then show "Container_Add (EStr t) (snd (Container_Add (EStr t) c))
               = (None, snd (Container_Add (EStr t) c))"
    by (simp add: Container_Add_def set_sl_add)
next
  assume "t \<noteq> [] \<and> EStr t \<notin> set c"
  then show "count_list (snd (Container_Add (EStr t) c)) (EStr t) = 1"
    by (simp add: Container_Add_def count_sl_add count_list_0_iff)
next
  assume "EPair k x \<in> set d"
  then show "snd (Container_Add (EPair k y) d) = d"
    by (auto simp: Container_Add_def split: sum.splits dest: firsts_mem)
next
  assume h: "EPair k x \<in> set d \<and> list_all is_tuple d"
  then obtain ps where ps: "unpack_all d = Inr ps"
    using unpack_all_pairs by blast
  then have "firsts d = Inr (map fst ps)"
    by (simp add: firsts_def)
  moreover have "k \<in> set (map fst ps)"
    using h ps unpack_all_mem [of d ps k x] by force
  ultimately show "Container_Add (EPair k y) d = (None, d)"
    by (simp add: Container_Add_def)
qed

theorem Container_Add_deduplicates_witness:
  "EStr ''USD.LIBOR.3M'' \<in> set (Contents curves_first)
   \<and> Container_Add (EStr ''USD.LIBOR.3M'') (Contents curves_first) = (None, Contents curves_first)
   \<and> ''GBP.SONIA'' \<noteq> [] \<and> EStr ''GBP.SONIA'' \<notin> set (Contents curves_first)
   \<and> count_list (snd (Container_Add (EStr ''GBP.SONIA'') (Contents curves_first)))
        (EStr ''GBP.SONIA'') = 1
   \<and> EPair ''-runtime'' ''must be AM or PM'' \<in> set cmdline_pairs
   \<and> list_all is_tuple cmdline_pairs
   \<and> Container_Add (EPair ''-runtime'' ''given twice'') cmdline_pairs = (None, cmdline_pairs)"
proof -
  have h1: "EStr ''USD.LIBOR.3M'' \<in> set (Contents curves_first)"
    by (simp add: curves_first_def)
  have h2: "''GBP.SONIA'' \<noteq> [] \<and> EStr ''GBP.SONIA'' \<notin> set (Contents curves_first)"
    by (simp add: curves_first_def)
  have h3: "EPair ''-runtime'' ''must be AM or PM'' \<in> set cmdline_pairs"
    by (simp add: cmdline_pairs_def)
  have h4: "list_all is_tuple cmdline_pairs"
    by (simp add: cmdline_pairs_def)
  show ?thesis
    using h1 h2 h3 h4
      Container_Add_deduplicates [of "''USD.LIBOR.3M''" "Contents curves_first" "''GBP.SONIA''"
        "''-runtime''" "''must be AM or PM''" cmdline_pairs "''given twice''"]
    by blast
qed

lemma TimeStamp_Container_Merge:
  "TimeStamp self = DT a \<Longrightarrow>
   TimeStamp (snd (Container_Merge self v)) =
     (case v of
        PyExc c \<Rightarrow>
          (case TimeStamp c of
             DT b \<Rightarrow> if is_container (Kind c) then DT (min b a) else DT a
           | TS s \<Rightarrow> DT a)
      | _ \<Rightarrow> DT a)"
  by (cases v)
     (auto simp: Container_Merge_def stamp_less_def Let_def min_def
           split: prod.splits stamp.splits sum.splits)

text \<open>
  For timestamps that are \<open>datetime\<close> objects the merge keeps the earlier one.
\<close>

lemma Merge_exc_datetime_min:
  assumes "TimeStamp self = DT a" and "TimeStamp other = DT b"
      and "is_container (Kind self)" and "Kind other = Kind self"
  shows "TimeStamp (snd (Merge_exc self (PyExc other))) = DT (min a b)"
  using assms
  by (auto simp: Merge_exc_def TimeStamp_Container_Merge min.commute)

text \<open>
  Claim C8 asks that a merge leaves the earlier of the two timestamps and never a later
  one. The code does not when the timestamps were given as strings, which the setter
  stores unparsed: the strings are compared character by character, so merging a
  container stamped \<open>01/01/2019 00:00:01\<close> into one stamped \<open>12/31/2018 23:59:59\<close> moves
  the receiver's timestamp to the later time.
\<close>

theorem Merge_exc_raises_timestamp:
  "Merge_exc year_end_curves (PyExc new_year_curves) =
     (None, year_end_curves\<lparr>TimeStamp := TS ''01/01/2019 00:00:01''\<rparr>)"
  by (simp add: Merge_exc_def Container_Merge_def stamp_less_def year_end_curves_def
      new_year_curves_def Container_Add_def)

text \<open>
  Claim C9: \<open>HasErrors\<close> of a \<open>CommandLineErrors\<close> object is true exactly when its
  container is not empty or its auxiliary list is not empty, the first being what
  \<open>HasErrors\<close> of the base class answers; so it is true when the container is empty
  and the auxiliary list is not.
\<close>

theorem CommandLineErrors_HasErrors_or:
  assumes "Kind self = CommandLineErrors"
  shows "HasErrors_exc self = Inr (Contents self \<noteq> [] \<or> InvalidArgs self \<noteq> [])
         \<and> Container_HasErrors self = (Contents self \<noteq> [])
         \<and> (Contents self = [] \<and> InvalidArgs self \<noteq> [] \<longrightarrow> HasErrors_exc self = Inr True)"
  using assms
  by (auto simp: HasErrors_exc_def CommandLineErrors_HasErrors_def Container_HasErrors_def)

theorem CommandLineErrors_HasErrors_or_witness:
  "Kind cmdline_tokens_only = CommandLineErrors
   \<and> Contents cmdline_tokens_only = [] \<and> InvalidArgs cmdline_tokens_only = [''-colour'']
   \<and> HasErrors_exc cmdline_tokens_only = Inr True
   \<and> HasErrors_exc (cmdline_tokens_only\<lparr>InvalidArgs := []\<rparr>) = Inr False
   \<and> HasErrors_exc (cmdline_tokens_only\<lparr>Contents := cmdline_pairs, InvalidArgs := []\<rparr>) = Inr True"
proof -
  have h: "Kind cmdline_tokens_only = CommandLineErrors"
    by (simp add: cmdline_tokens_only_def)
  have h1: "Kind (cmdline_tokens_only\<lparr>InvalidArgs := []\<rparr>) = CommandLineErrors"
    by (simp add: cmdline_tokens_only_def)
  have h2: "Kind (cmdline_tokens_only\<lparr>Contents := cmdline_pairs, InvalidArgs := []\<rparr>)
              = CommandLineErrors"
    by (simp add: cmdline_tokens_only_def)
  have e: "Contents cmdline_tokens_only = [] \<and> InvalidArgs cmdline_tokens_only = [''-colour'']"
    by (simp add: cmdline_tokens_only_def)
  have p: "cmdline_pairs \<noteq> []"
    by (simp add: cmdline_pairs_def)
  show ?thesis
    using h e p CommandLineErrors_HasErrors_or [OF h] CommandLineErrors_HasErrors_or [OF h1]
      CommandLineErrors_HasErrors_or [OF h2]
    by simp
qed

section \<open>Properties of the aggregator\<close>

text \<open>
  Claim C10: constructing an aggregator from an aggregator, empty or not, raises the
  \<open>ValueError\<close> of \<open>Merge\<close>, which is handed the dictionary; with \<open>None\<close> the constructor
  gives the empty aggregator, and with no other argument does it return at all.
\<close>

theorem ExceptionAggregator_copy_raises:
  "ExceptionAggregator (PyAgg a) =
     Inl (PyError ValueError ''exceptionAgg must be an ExceptionAggregator object.'')
   \<and> ExceptionAggregator PyNone = Inr []
   \<and> ((\<exists>self. ExceptionAggregator v = Inr self) = (v = PyNone))"
  by (cases v) (auto simp: ExceptionAggregator_def set_Contents_def Merge_def)

theorem ExceptionAggregator_copy_raises_witness:
  "ExceptionAggregator (PyAgg []) =
     Inl (PyError ValueError ''exceptionAgg must be an ExceptionAggregator object.'')
   \<and> ExceptionAggregator (PyAgg [(OutlookFailed, mail_failed)]) =
     Inl (PyError ValueError ''exceptionAgg must be an ExceptionAggregator object.'')"
  using ExceptionAggregator_copy_raises [of "[]" PyNone]
    ExceptionAggregator_copy_raises [of "[(OutlookFailed, mail_failed)]" PyNone]
  by simp

text \<open>
  Claim C1 asks that \<open>Merge\<close> adds every stored exception of the other aggregator. The
  code does not: merging an aggregator that holds one missing-curves container into an
  empty one raises \<open>NameError\<close> and adds nothing, since the class object that is the key
  is no container instance and the other branch reads the unbound name \<open>item\<close>.
\<close>

theorem Merge_raises_NameError:
  "Merge [] (PyAgg [(MerlinCurvesMissing, curves_first)]) =
     (Some (PyError NameError ''global name 'item' is not defined''), [])"
  by (simp add: Merge_def)

section \<open>Properties of the Fatal exceptions\<close>

text \<open>
  Claim C2 asks that \<open>HandleAndExit\<close> ends the process. The code does not: for a missing
  configuration file it prints the banner, the granular message and
  \<open>Exiting application.\<close> and returns to its caller.
\<close>

theorem HandleAndExit_returns:
  "HandleAndExit config_missing (PyBool True) quiet_world =
     (None, quiet_world\<lparr>stdout :=
        [MessageHeader,
         ''The following {Configuration Files : Path } could not be loaded:'' @ [newline]
           @ ''Filepaths.csv:'' @ [newline] @ ''C:/Configs/Filepaths.csv'',
         ''Exiting application.'']\<rparr>)"
  by (simp add: HandleAndExit_def config_missing_def quiet_world_def print_def Message_def
      ConfigFilesMissing_Message_def)

section \<open>Properties of the log file\<close>












lemma stdout_Print: "stdout (snd (Print env self w)) = stdout w"
  by (auto simp: Print_def Let_def split: option.splits sum.splits if_splits)

lemma LogPath_Append_keys: "LogPath (Append_keys env lf self ks) = LogPath lf"
  by (induction ks arbitrary: lf) (auto simp: Append_def split: option.splits)












text \<open>
  Claim C6: with no stored exception, or with \<open>noLog\<close> true, \<open>GenerateLogFile\<close> leaves
  the files, the console and the aggregator as they were, whatever the constructor of
  the log file would have done: it returns, or raises its \<open>ValueError\<close> for a
  \<open>valueDate\<close> that is no date, before it builds the log file.
\<close>

theorem GenerateLogFile_no_io:
  assumes "\<not> HasErrors self \<or> noLog = PyBool True"
  shows "GenerateLogFile env self valueDate runTime noLog w =
           (if is_date valueDate then None
            else Some (PyError ValueError ''valueDate must be a datetime or date object.''),
            self, w)"
  using assms by (auto simp: GenerateLogFile_def)

theorem GenerateLogFile_no_io_witness:
  "\<not> HasErrors []
   \<and> GenerateLogFile sample_env [] run_date (PyStr ''AM'') (PyBool False) logged_world
       = (None, [], logged_world)
   \<and> HasErrors [(OutlookFailed, mail_failed)]
   \<and> GenerateLogFile sample_env [(OutlookFailed, mail_failed)] run_date (PyStr ''AM'')
        (PyBool True) quiet_world
       = (None, [(OutlookFailed, mail_failed)], quiet_world)"
proof -
  have h1: "\<not> HasErrors [] \<or> PyBool False = PyBool True"
    by (simp add: HasErrors_def)
  have h2: "\<not> HasErrors [(OutlookFailed, mail_failed)] \<or> PyBool True = PyBool True"
    by simp
  have d: "is_date run_date"
    by (simp add: run_date_def)
  show ?thesis
    using d GenerateLogFile_no_io [OF h1, of sample_env run_date "PyStr ''AM''" logged_world]
      GenerateLogFile_no_io [OF h2, of sample_env run_date "PyStr ''AM''" quiet_world]
    by (simp add: HasErrors_def)
qed

text \<open>
  Claim C3, as stated: a failure of the log step is reported on the console and not put
  into the aggregator. The sample run refutes it: the earlier log cannot be read, and
  \<open>GenerateLogFile\<close> returns with a \<open>LogFileFailed\<close> stored in the aggregator and nothing
  printed.
\<close>

theorem GenerateLogFile_failure_counterexample:
  "GenerateLogFile sample_env [(OutlookFailed, mail_failed)] run_date (PyStr ''AM'')
     (PyBool False) locked_world
     = (None,
        [(OutlookFailed, mail_failed),
         (LogFileFailed, new_LogFileFailed [] log_path [] (2019, 3, 14, 9, 0, 0, 0))],
        locked_world)
   \<and> stdout locked_world = []"
  by (simp add: GenerateLogFile_def HasErrors_def run_date_def LogFile_init_def sample_env_def
      Append_def mail_failed_def Print_def locked_world_def Add_def Add_exc_def
      new_LogFileFailed_def)

text \<open>
  Claim C3, amended: when the log file was built and appending or printing raises an
  exception derived from \<open>Exception\<close>, \<open>GenerateLogFile\<close> returns normally with a
  \<open>LogFileFailed\<close> stored in the aggregator under its class, carrying the path of the log
  file and the message of the exception, and prints nothing.
\<close>

theorem GenerateLogFile_failure_stored:
  assumes "is_date valueDate" and "HasErrors self" and "noLog \<noteq> PyBool True"
      and "LogFile_init env w = (Inr logFile0, w1)"
      and "Print env (Append_keys env logFile0 self (map fst self)) w1 = (Some err, w2)"
      and "is_Exception err"
  shows "GenerateLogFile env self valueDate runTime noLog w =
           (None,
            AList.update LogFileFailed
              (new_LogFileFailed [] (LogPath logFile0) (err_message err) (default_timestamp env))
              self,
            w2)
         \<and> stdout w2 = stdout w1"
proof -
  have nl: "(case noLog of PyBool b \<Rightarrow> b | _ \<Rightarrow> False) = False"
    using assms(3) by (cases noLog) auto
  have add: "Add self (PyExc (new_LogFileFailed [] p m t)) =
               (None, AList.update LogFileFailed (new_LogFileFailed [] p m t) self)" for p m t
    by (simp add: Add_def Add_exc_def new_LogFileFailed_def)
  have "stdout w2 = stdout w1"
    using stdout_Print [of env "Append_keys env logFile0 self (map fst self)" w1] assms(5)
    by simp
  then show ?thesis
    using assms nl add by (simp add: GenerateLogFile_def LogPath_Append_keys)
qed

theorem GenerateLogFile_failure_stored_witness:
  "is_date run_date \<and> HasErrors [(OutlookFailed, mail_failed)] \<and> PyBool False \<noteq> PyBool True
   \<and> LogFile_init sample_env locked_world
        = (Inr \<lparr>LogPath = log_path, FatalErrors = [], NonFatalErrors = []\<rparr>, locked_world)
   \<and> Print sample_env
        (Append_keys sample_env \<lparr>LogPath = log_path, FatalErrors = [], NonFatalErrors = []\<rparr>
           [(OutlookFailed, mail_failed)] (map fst [(OutlookFailed, mail_failed)])) locked_world
        = (Some (PyError IOError []), locked_world)
   \<and> is_Exception (PyError IOError [])
   \<and> GenerateLogFile sample_env [(OutlookFailed, mail_failed)] run_date (PyStr ''AM'')
        (PyBool False) locked_world
        = (None,
           [(OutlookFailed, mail_failed),
            (LogFileFailed, new_LogFileFailed [] log_path [] (2019, 3, 14, 9, 0, 0, 0))],
           locked_world)"
proof -
  have h1: "is_date run_date" by (simp add: run_date_def)
  have h2: "HasErrors [(OutlookFailed, mail_failed)]" by (simp add: HasErrors_def)
  have h3: "PyBool False \<noteq> PyBool True" by simp
  have h4: "LogFile_init sample_env locked_world
              = (Inr \<lparr>LogPath = log_path, FatalErrors = [], NonFatalErrors = []\<rparr>, locked_world)"
    by (simp add: LogFile_init_def sample_env_def)
  have h5: "Print sample_env
        (Append_keys sample_env \<lparr>LogPath = log_path, FatalErrors = [], NonFatalErrors = []\<rparr>
           [(OutlookFailed, mail_failed)] (map fst [(OutlookFailed, mail_failed)])) locked_world
        = (Some (PyError IOError []), locked_world)"
    by (simp add: Append_def mail_failed_def Print_def locked_world_def)
  have h6: "is_Exception (PyError IOError [])" by simp
  have t: "default_timestamp sample_env = (2019, 3, 14, 9, 0, 0, 0)"
    by (simp add: sample_env_def)
  show ?thesis
    using h1 h2 h3 h4 h5 h6 t
      GenerateLogFile_failure_stored [OF h1 h2 h3 h4 h5 h6, of "PyStr ''AM''"]
    by simp
qed

end
